theory Spec2Isabelle
  imports Main "HOL-Library.Word"
begin

unbundle bit_operations_syntax

section \<open>The hardware the library drives\<close>

text \<open>
  The library (\<^verbatim>\<open>src/AVRsleep/src/AVR_sleep.h\<close> and \<^verbatim>\<open>AVR_sleep.cpp\<close>) drives an
  ATmega328P through the special function registers and the macros of avr-libc
  (\<^verbatim>\<open>avr/io.h\<close>, \<^verbatim>\<open>avr/sleep.h\<close>, \<^verbatim>\<open>avr/wdt.h\<close>, \<^verbatim>\<open>avr/interrupt.h\<close>), which
  the two source files include and which are not part of the repository.

  Modelled from the spec: the registers of \<^verbatim>\<open>avr/io.h\<close>. The spec (section 6) lists the
  power-reduction register (8 bits), the sleep-mode-select field and the sleep-enable
  bit, the global-interrupt-enable flag, the brown-out-detector-disable bit and the
  watchdog control and status registers, and has them tested as addressable register
  storage (section 8). The record holds the registers the source names (PRR, ACSR, MCUSR,
  SREG) or reaches through the macros (SMCR, MCUCR, WDTCSR), as plain 8-bit cells.
\<close>

type_synonym u8 = "8 word"
type_synonym u16 = "16 word"

record regs =
  PRR :: u8
  ACSR :: u8
  MCUSR :: u8
  MCUCR :: u8
  SMCR :: u8
  SREG :: u8
  WDTCSR :: u8

text \<open>
  Modelled from the spec: the bit names of \<^verbatim>\<open>avr/io.h\<close>. The spec names the flags
  without numbers; the numbers of the bits of the power reduction register are those the
  comments of \<^verbatim>\<open>AVR_sleep.h\<close> (lines 86--92) give, the others are those of the
  ATmega328P, for which the library is written.
\<close>

definition PRTWI :: nat where "PRTWI = 7"
definition PRTIM2 :: nat where "PRTIM2 = 6"
definition PRTIM0 :: nat where "PRTIM0 = 5"
definition PRTIM1 :: nat where "PRTIM1 = 3"
definition PRSPI :: nat where "PRSPI = 2"
definition PRUSART0 :: nat where "PRUSART0 = 1"
definition PRADC :: nat where "PRADC = 0"

definition ACD :: nat where "ACD = 7"      \<comment> \<open>ACSR: analog comparator disable\<close>
definition WDRF :: nat where "WDRF = 3"    \<comment> \<open>MCUSR: watchdog reset flag\<close>
definition BORF :: nat where "BORF = 2"    \<comment> \<open>MCUSR: brown-out reset flag\<close>
definition EXTRF :: nat where "EXTRF = 1"  \<comment> \<open>MCUSR: external reset flag\<close>
definition PORF :: nat where "PORF = 0"    \<comment> \<open>MCUSR: power-on reset flag\<close>
definition SE :: nat where "SE = 0"        \<comment> \<open>SMCR: sleep enable\<close>
definition SM0 :: nat where "SM0 = 1"      \<comment> \<open>SMCR: sleep mode select bits\<close>
definition SM1 :: nat where "SM1 = 2"
definition SM2 :: nat where "SM2 = 3"
definition BODS :: nat where "BODS = 6"    \<comment> \<open>MCUCR: BOD sleep\<close>
definition BODSE :: nat where "BODSE = 5"  \<comment> \<open>MCUCR: BOD sleep enable\<close>
definition SREG_I :: nat where "SREG_I = 7" \<comment> \<open>SREG: global interrupt enable\<close>

text \<open>\<^verbatim>\<open>_BV(bit)\<close> of avr-libc: \<^verbatim>\<open>(1 << (bit))\<close>.\<close>

definition BV :: "nat \<Rightarrow> u8" where
  "BV b = push_bit b 1"

section \<open>The types of \<^verbatim>\<open>AVR_sleep.h\<close>\<close>

text \<open>\<^verbatim>\<open>enum sleepMode : uint8_t\<close> (lines 66--73).\<close>

datatype sleepMode =
    SM_IDLE
  | SM_ADC
  | SM_POWER_DOWN
  | SM_POWER_SAVE
  | SM_STANDBY
  | SM_EXT_STANDBY

text \<open>
  Modelled from the spec: the constants \<^verbatim>\<open>SLEEP_MODE_IDLE\<close>, \<^verbatim>\<open>SLEEP_MODE_ADC\<close>,
  \<^verbatim>\<open>SLEEP_MODE_PWR_DOWN\<close>, \<^verbatim>\<open>SLEEP_MODE_PWR_SAVE\<close>, \<^verbatim>\<open>SLEEP_MODE_STANDBY\<close> and
  \<^verbatim>\<open>SLEEP_MODE_EXT_STANDBY\<close> of \<^verbatim>\<open>avr/sleep.h\<close>, from which the enumerators take their
  values. The spec has the mode committed to the sleep-mode-select field; on the
  ATmega328P the six modes are the SM2:0 patterns 0, 1, 2, 3, 6, 7, shifted to bit 1
  of SMCR.
\<close>

fun sleepMode_val :: "sleepMode \<Rightarrow> u8" where
  "sleepMode_val SM_IDLE = push_bit 1 0"
| "sleepMode_val SM_ADC = push_bit 1 1"
| "sleepMode_val SM_POWER_DOWN = push_bit 1 2"
| "sleepMode_val SM_POWER_SAVE = push_bit 1 3"
| "sleepMode_val SM_STANDBY = push_bit 1 6"
| "sleepMode_val SM_EXT_STANDBY = push_bit 1 7"

text \<open>
  \<^verbatim>\<open>enum powerMode : uint16_t\<close> (lines 84--101). A power-off mask is a 16-bit value;
  the enumerators are these constants.
\<close>

definition PM_NONE :: u16 where "PM_NONE = 0"
definition PM_TWI_OFF :: u16 where "PM_TWI_OFF = push_bit PRTWI 1"
definition PM_TIMER2_OFF :: u16 where "PM_TIMER2_OFF = push_bit PRTIM2 1"
definition PM_TIMER0_OFF :: u16 where "PM_TIMER0_OFF = push_bit PRTIM0 1"
definition PM_TIMER1_OFF :: u16 where "PM_TIMER1_OFF = push_bit PRTIM1 1"
definition PM_SPI_OFF :: u16 where "PM_SPI_OFF = push_bit PRSPI 1"
definition PM_USART_OFF :: u16 where "PM_USART_OFF = push_bit PRUSART0 1"
definition PM_ADC_OFF :: u16 where "PM_ADC_OFF = push_bit PRADC 1"
definition PM_PRR_OFF :: u16 where "PM_PRR_OFF = 0xEF"
definition PM_AC_OFF :: u16 where "PM_AC_OFF = 8"
definition PM_BOD_OFF :: u16 where "PM_BOD_OFF = 9"
definition PM_WDT_OFF :: u16 where "PM_WDT_OFF = 10"
definition PM_EVERYTHING_OFF :: u16 where "PM_EVERYTHING_OFF = 0x07EF"

text \<open>
  \<^verbatim>\<open>preSleepFN\<close> and \<^verbatim>\<open>afterWakeFN\<close> (lines 54, 59) are pointers to functions without
  arguments or result. A hook is modelled by what it does to the registers; the null
  pointer is \<open>None\<close>. Hooks (and the interrupt handler that ends a sleep) act on the
  hardware only: they do not call back into the \<^verbatim>\<open>AVR_sleep\<close> object, whose fields
  are private.
\<close>

type_synonym hook = "regs \<Rightarrow> regs"

text \<open>The private fields of \<^verbatim>\<open>class AVR_sleep\<close> (lines 136--151).\<close>

record AVR_sleep =
  ps :: "hook option"
  aw :: "hook option"
  copyPRR :: u8
  powerBits :: u16

text \<open>The constructor (\<^verbatim>\<open>AVR_sleep.cpp\<close> lines 8--13).\<close>

definition new_AVR_sleep :: AVR_sleep where
  "new_AVR_sleep = \<lparr>ps = None, aw = None, copyPRR = 0, powerBits = PM_NONE\<rparr>"

section \<open>Machine state and the operations of avr-libc\<close>

text \<open>
  The operations on the hardware and the hook calls that the library performs, in program
  order: one event for each statement of the source that writes a register, executes an
  avr-libc macro or calls a hook. Reading a register leaves no event.
\<close>

datatype event =
    SET_SLEEP_MODE   \<comment> \<open>\<^verbatim>\<open>set_sleep_mode(mode)\<close>\<close>
  | W_PRR            \<comment> \<open>\<^verbatim>\<open>PRR = ...\<close>\<close>
  | W_ACSR           \<comment> \<open>\<^verbatim>\<open>ACSR |= ...\<close>\<close>
  | WDT_RESET        \<comment> \<open>\<^verbatim>\<open>wdt_reset()\<close>\<close>
  | W_MCUSR          \<comment> \<open>\<^verbatim>\<open>MCUSR &= ...\<close>\<close>
  | WDT_DISABLE      \<comment> \<open>\<^verbatim>\<open>wdt_disable()\<close>\<close>
  | PRE_SLEEP        \<comment> \<open>\<^verbatim>\<open>(ps)()\<close>\<close>
  | CLI              \<comment> \<open>\<^verbatim>\<open>cli()\<close>\<close>
  | SLEEP_ENABLE     \<comment> \<open>\<^verbatim>\<open>sleep_enable()\<close>\<close>
  | BOD_DISABLE      \<comment> \<open>\<^verbatim>\<open>sleep_bod_disable()\<close>\<close>
  | SEI              \<comment> \<open>\<^verbatim>\<open>sei()\<close>\<close>
  | SLEEP_CPU        \<comment> \<open>\<^verbatim>\<open>sleep_cpu()\<close>\<close>
  | SLEEP_DISABLE    \<comment> \<open>\<^verbatim>\<open>sleep_disable()\<close>\<close>
  | W_SREG           \<comment> \<open>\<^verbatim>\<open>SREG = ...\<close>\<close>
  | AFTER_WAKE       \<comment> \<open>\<^verbatim>\<open>(aw)()\<close>\<close>

text \<open>
  The state of the system: the one \<^verbatim>\<open>AVRsleep\<close> object (\<^verbatim>\<open>AVR_sleep.cpp\<close> line 202),
  the registers, and the operations performed so far.
\<close>

record mcu =
  self :: AVR_sleep
  io :: regs
  trace :: "event list"

definition emit :: "event \<Rightarrow> mcu \<Rightarrow> mcu" where
  "emit e s = s\<lparr>trace := trace s @ [e]\<rparr>"

text \<open>Assignments to the registers the source writes directly.\<close>

definition write_PRR :: "u8 \<Rightarrow> mcu \<Rightarrow> mcu" where
  "write_PRR v s = emit W_PRR (s\<lparr>io := (io s)\<lparr>PRR := v\<rparr>\<rparr>)"

definition write_ACSR :: "u8 \<Rightarrow> mcu \<Rightarrow> mcu" where
  "write_ACSR v s = emit W_ACSR (s\<lparr>io := (io s)\<lparr>ACSR := v\<rparr>\<rparr>)"

definition write_MCUSR :: "u8 \<Rightarrow> mcu \<Rightarrow> mcu" where
  "write_MCUSR v s = emit W_MCUSR (s\<lparr>io := (io s)\<lparr>MCUSR := v\<rparr>\<rparr>)"

definition write_SREG :: "u8 \<Rightarrow> mcu \<Rightarrow> mcu" where
  "write_SREG v s = emit W_SREG (s\<lparr>io := (io s)\<lparr>SREG := v\<rparr>\<rparr>)"

text \<open>
  Modelled from the spec: the macros \<^verbatim>\<open>set_sleep_mode\<close>, \<^verbatim>\<open>sleep_enable\<close>,
  \<^verbatim>\<open>sleep_disable\<close>, \<^verbatim>\<open>sleep_bod_disable\<close> and \<^verbatim>\<open>sleep_cpu\<close> of \<^verbatim>\<open>avr/sleep.h\<close>.
  The spec (section 4.1): "commit the mode to the hardware sleep-mode-select field",
  "enable the sleep-mode function (arms the hardware)", "disarm the sleep-mode function",
  "disable brown-out detection", "issue the sleep instruction". In avr-libc
  \<^verbatim>\<open>set_sleep_mode(mode)\<close> is
  \<^verbatim>\<open>SMCR = ((SMCR & ~(_BV(SM0) | _BV(SM1) | _BV(SM2))) | (mode))\<close>;
  \<^verbatim>\<open>sleep_enable()\<close> is \<^verbatim>\<open>SMCR |= _BV(SE)\<close>; \<^verbatim>\<open>sleep_disable()\<close> is
  \<^verbatim>\<open>SMCR &= ~_BV(SE)\<close>; \<^verbatim>\<open>sleep_bod_disable()\<close> writes MCUCR twice, first with BODS
  and BODSE set, then with BODS set and BODSE cleared; \<^verbatim>\<open>sleep_cpu()\<close> is the
  \<^verbatim>\<open>sleep\<close> instruction.
\<close>

definition set_sleep_mode :: "u8 \<Rightarrow> mcu \<Rightarrow> mcu" where
  "set_sleep_mode mode s =
     emit SET_SLEEP_MODE
       (s\<lparr>io := (io s)\<lparr>SMCR := (SMCR (io s) AND NOT (BV SM0 OR BV SM1 OR BV SM2)) OR mode\<rparr>\<rparr>)"

definition sleep_enable :: "mcu \<Rightarrow> mcu" where
  "sleep_enable s = emit SLEEP_ENABLE (s\<lparr>io := (io s)\<lparr>SMCR := SMCR (io s) OR BV SE\<rparr>\<rparr>)"

definition sleep_disable :: "mcu \<Rightarrow> mcu" where
  "sleep_disable s =
     emit SLEEP_DISABLE (s\<lparr>io := (io s)\<lparr>SMCR := SMCR (io s) AND NOT (BV SE)\<rparr>\<rparr>)"

definition sleep_bod_disable :: "mcu \<Rightarrow> mcu" where
  "sleep_bod_disable s =
     (let tempreg = MCUCR (io s) OR (BV BODS OR BV BODSE)
      in emit BOD_DISABLE (s\<lparr>io := (io s)\<lparr>MCUCR := tempreg AND NOT (BV BODSE)\<rparr>\<rparr>))"

text \<open>
  Modelled from the spec: \<^verbatim>\<open>sleep_cpu\<close>, see above. The \<^verbatim>\<open>sleep\<close> instruction halts the processor until an enabled interrupt fires; its
  handler runs and control returns to the instruction after \<^verbatim>\<open>sleep\<close>. What happens to
  the registers in between is the parameter \<open>wake\<close>, about which nothing is assumed.
  (A reset instead restarts the program, and the call of \<^verbatim>\<open>goToSleep\<close> never returns:
  \<^verbatim>\<open>AVR_sleep.cpp\<close> lines 139--158. The model describes the calls that are woken by an
  interrupt.)
\<close>

definition sleep_cpu :: "hook \<Rightarrow> mcu \<Rightarrow> mcu" where
  "sleep_cpu wake s = (emit SLEEP_CPU s)\<lparr>io := wake (io s)\<rparr>"

text \<open>
  Modelled from the spec: \<^verbatim>\<open>cli\<close> and \<^verbatim>\<open>sei\<close> of \<^verbatim>\<open>avr/interrupt.h\<close>. The spec:
  "disable interrupts", "re-enable interrupts". \<^verbatim>\<open>cli()\<close> clears and \<^verbatim>\<open>sei()\<close> sets the
  global interrupt enable flag, bit 7 of SREG.
\<close>

definition cli :: "mcu \<Rightarrow> mcu" where
  "cli s = emit CLI (s\<lparr>io := (io s)\<lparr>SREG := SREG (io s) AND NOT (BV SREG_I)\<rparr>\<rparr>)"

definition sei :: "mcu \<Rightarrow> mcu" where
  "sei s = emit SEI (s\<lparr>io := (io s)\<lparr>SREG := SREG (io s) OR BV SREG_I\<rparr>\<rparr>)"

text \<open>
  Modelled from the spec: \<^verbatim>\<open>wdt_reset\<close> and \<^verbatim>\<open>wdt_disable\<close> of \<^verbatim>\<open>avr/wdt.h\<close>. The
  spec: "resetting/acknowledging" the watchdog and "issuing the disable sequence".
  \<^verbatim>\<open>wdt_reset()\<close> is the \<^verbatim>\<open>wdr\<close> instruction, which restarts the
  watchdog counter and changes no register of the model; \<^verbatim>\<open>wdt_disable()\<close> is the timed
  sequence that ends by storing zero in WDTCSR (it saves and restores SREG around it).
\<close>

definition wdt_reset :: "mcu \<Rightarrow> mcu" where
  "wdt_reset s = emit WDT_RESET s"

definition wdt_disable :: "mcu \<Rightarrow> mcu" where
  "wdt_disable s = emit WDT_DISABLE (s\<lparr>io := (io s)\<lparr>WDTCSR := 0\<rparr>\<rparr>)"

text \<open>Calling through a hook pointer that was tested against null: \<^verbatim>\<open>if (p) { (p)(); }\<close>.\<close>

definition call_hook :: "event \<Rightarrow> hook option \<Rightarrow> mcu \<Rightarrow> mcu" where
  "call_hook e p s = (case p of None \<Rightarrow> s | Some f \<Rightarrow> (emit e s)\<lparr>io := f (io s)\<rparr>)"

section \<open>The member functions of \<^verbatim>\<open>AVR_sleep.cpp\<close>\<close>

text \<open>
  \<^verbatim>\<open>AVR_sleep::setSleepMode\<close> (lines 20--51). The first argument says whether the
  macro \<^verbatim>\<open>ARDUINO\<close> is defined, that is, whether lines 35--44 are compiled.
\<close>

definition setSleepMode :: "bool \<Rightarrow> sleepMode \<Rightarrow> u16 \<Rightarrow> mcu \<Rightarrow> mcu" where
  "setSleepMode arduino sleepMode powerOffBits s =
     (let mode = sleepMode;
          s = s\<lparr>self := (self s)\<lparr>powerBits := powerOffBits\<rparr>\<rparr>;
          mode = (if arduino then
                    (if mode = SM_POWER_SAVE then SM_POWER_DOWN
                     else if mode = SM_EXT_STANDBY then SM_STANDBY
                     else mode)
                  else mode)
      in set_sleep_mode (sleepMode_val mode) s)"

text \<open>
  \<^verbatim>\<open>AVR_sleep::goToSleep\<close> (lines 59--181), block by block.

  Lines 69--72: save the power reduction register, then write the low byte of the mask.
\<close>

definition goToSleep_PRR :: "mcu \<Rightarrow> mcu" where
  "goToSleep_PRR s =
     (let s = s\<lparr>self := (self s)\<lparr>copyPRR := PRR (io s)\<rparr>\<rparr>
      in write_PRR (ucast (powerBits (self s) AND 0x00FF)) s)"

text \<open>Lines 83--85: the analog comparator.\<close>

definition goToSleep_AC :: "mcu \<Rightarrow> mcu" where
  "goToSleep_AC s =
     (if powerBits (self s) AND push_bit (unat PM_AC_OFF) 1 \<noteq> 0
      then write_ACSR (ACSR (io s) OR BV ACD) s
      else s)"

text \<open>Lines 94--98: the watchdog timer.\<close>

definition goToSleep_WDT :: "mcu \<Rightarrow> mcu" where
  "goToSleep_WDT s =
     (if powerBits (self s) AND push_bit (unat PM_WDT_OFF) 1 \<noteq> 0
      then (let s = wdt_reset s;
                s = write_MCUSR (MCUSR (io s) AND BV WDRF) s
            in wdt_disable s)
      else s)"

text \<open>Lines 103--105: the hook before sleeping.\<close>

definition goToSleep_preSleep :: "mcu \<Rightarrow> mcu" where
  "goToSleep_preSleep s = call_hook PRE_SLEEP (ps (self s)) s"

text \<open>
  Lines 110--173: save SREG, disable interrupts, enter sleep, and after the wake-up
  restore the power reduction register and SREG.
\<close>

definition goToSleep_sleep :: "hook \<Rightarrow> mcu \<Rightarrow> mcu" where
  "goToSleep_sleep wake s =
     (let oldSREG = SREG (io s);
          s = cli s;
          s = sleep_enable s;
          s = (if powerBits (self s) AND push_bit (unat PM_BOD_OFF) 1 \<noteq> 0
               then sleep_bod_disable s else s);
          s = sei s;
          s = sleep_cpu wake s;
          s = sleep_disable s;
          s = write_PRR (copyPRR (self s)) s
      in write_SREG oldSREG s)"

text \<open>Lines 178--180: the hook after waking.\<close>

definition goToSleep_afterWake :: "mcu \<Rightarrow> mcu" where
  "goToSleep_afterWake s = call_hook AFTER_WAKE (aw (self s)) s"

text \<open>The state in which the hook after waking is called (lines 69--173).\<close>

definition goToSleep_until_afterWake :: "hook \<Rightarrow> mcu \<Rightarrow> mcu" where
  "goToSleep_until_afterWake wake s =
     goToSleep_sleep wake (goToSleep_preSleep (goToSleep_WDT (goToSleep_AC (goToSleep_PRR s))))"

definition goToSleep :: "hook \<Rightarrow> mcu \<Rightarrow> mcu" where
  "goToSleep wake s = goToSleep_afterWake (goToSleep_until_afterWake wake s)"

text \<open>\<^verbatim>\<open>AVR_sleep::attachPreSleep\<close> (lines 186--188) and \<^verbatim>\<open>attachWakeUp\<close> (193--195).\<close>

definition attachPreSleep :: "hook option \<Rightarrow> mcu \<Rightarrow> mcu" where
  "attachPreSleep psfn s = s\<lparr>self := (self s)\<lparr>ps := psfn\<rparr>\<rparr>"

definition attachWakeUp :: "hook option \<Rightarrow> mcu \<Rightarrow> mcu" where
  "attachWakeUp awfn s = s\<lparr>self := (self s)\<lparr>aw := awfn\<rparr>\<rparr>"

section \<open>Notions the properties are stated with\<close>

text \<open>The sleep mode select field SM2:0 of SMCR: what \<^verbatim>\<open>set_sleep_mode\<close> commits.\<close>

definition committed_mode :: "mcu \<Rightarrow> u8" where
  "committed_mode s = SMCR (io s) AND (BV SM0 OR BV SM1 OR BV SM2)"

text \<open>The mode that stands in on an Arduino for one it cannot use (lines 33--43).\<close>

definition fallback :: "sleepMode \<Rightarrow> sleepMode" where
  "fallback m = (case m of SM_POWER_SAVE \<Rightarrow> SM_POWER_DOWN
                         | SM_EXT_STANDBY \<Rightarrow> SM_STANDBY
                         | _ \<Rightarrow> m)"

text \<open>The operations one call of \<^verbatim>\<open>goToSleep\<close> adds to the trace.\<close>

definition goToSleep_ops :: "hook \<Rightarrow> mcu \<Rightarrow> event list" where
  "goToSleep_ops wake s = drop (length (trace s)) (trace (goToSleep wake s))"

text \<open>
  A state for the examples: all four reset flags set in MCUSR, interrupts enabled, the
  watchdog running, the USART and Timer 2 clocks already gated.
\<close>

definition example_mcu :: "u16 \<Rightarrow> hook option \<Rightarrow> hook option \<Rightarrow> mcu" where
  "example_mcu pb f g =
     \<lparr>self = \<lparr>ps = f, aw = g, copyPRR = 0, powerBits = pb\<rparr>,
      io = \<lparr>PRR = 0x42, ACSR = 0, MCUSR = 0x0F, MCUCR = 0, SMCR = 0x04, SREG = 0x80,
            WDTCSR = 0x08\<rparr>,
      trace = []\<rparr>"

section \<open>setSleepMode\<close>

lemma sleepMode_val_in_field:
  "sleepMode_val m AND (BV SM0 OR BV SM1 OR BV SM2) = sleepMode_val m"
  by (cases m) (simp_all add: BV_def SM0_def SM1_def SM2_def)

lemma sleepMode_val_inj: "inj sleepMode_val"
  by (rule injI) (case_tac x; case_tac y; simp)

lemma committed_set_sleep_mode_raw:
  "committed_mode (set_sleep_mode v s) = v AND (BV SM0 OR BV SM1 OR BV SM2)"
  unfolding committed_mode_def set_sleep_mode_def emit_def
  by (simp, rule bit_eqI) (auto simp add: bit_simps)

lemma committed_set_sleep_mode:
  "committed_mode (set_sleep_mode (sleepMode_val m) s) = sleepMode_val m"
  by (simp only: committed_set_sleep_mode_raw sleepMode_val_in_field)

lemma setSleepMode_eq:
  "setSleepMode a m p s =
     set_sleep_mode (sleepMode_val (if a then fallback m else m))
       (s\<lparr>self := (self s)\<lparr>powerBits := p\<rparr>\<rparr>)"
  by (cases m) (simp_all add: setSleepMode_def fallback_def)

text \<open>
  C1. On an Arduino \<^verbatim>\<open>setSleepMode\<close> commits the requested mode, except that power-down
  stands in for power-save and standby for extended standby; so the committed mode is
  always the requested one or its fallback. Without \<^verbatim>\<open>ARDUINO\<close> it commits the
  requested mode unchanged. Different modes have different values, so the committed value
  stands for no third mode.
\<close>

theorem setSleepMode_commits_mode_or_fallback:
  "committed_mode (setSleepMode True m p s) =
     sleepMode_val (if m = SM_POWER_SAVE then SM_POWER_DOWN
                    else if m = SM_EXT_STANDBY then SM_STANDBY else m)
   \<and> (committed_mode (setSleepMode True m p s) = sleepMode_val m
      \<or> committed_mode (setSleepMode True m p s) = sleepMode_val (fallback m))
   \<and> committed_mode (setSleepMode False m p s) = sleepMode_val m
   \<and> inj sleepMode_val"
proof -
  have fb: "fallback m = (if m = SM_POWER_SAVE then SM_POWER_DOWN
                          else if m = SM_EXT_STANDBY then SM_STANDBY else m)"
    by (cases m) (simp_all add: fallback_def)
  have "committed_mode (setSleepMode True m p s) = sleepMode_val (fallback m)"
    unfolding setSleepMode_eq by (simp only: committed_set_sleep_mode if_True)
  moreover have "committed_mode (setSleepMode False m p s) = sleepMode_val m"
    unfolding setSleepMode_eq by (simp only: committed_set_sleep_mode if_False)
  ultimately show ?thesis
    using fb sleepMode_val_inj by (simp del: sleepMode_val.simps)
qed

lemma set_sleep_mode_twice:
  "io (set_sleep_mode v (set_sleep_mode v s)) = io (set_sleep_mode v s)"
proof -
  have "(x AND NOT a AND NOT b AND NOT c OR v) AND NOT a AND NOT b AND NOT c OR v
          = x AND NOT a AND NOT b AND NOT c OR v" for x a b c :: u8
    by (rule bit_eqI) (auto simp add: bit_simps)
  then show ?thesis
    by (simp add: set_sleep_mode_def emit_def)
qed

lemma self_set_sleep_mode: "self (set_sleep_mode v s) = self s"
  by (simp add: set_sleep_mode_def emit_def)

lemma io_set_sleep_mode_self:
  "io (set_sleep_mode v (s\<lparr>self := c\<rparr>)) = io (set_sleep_mode v s)"
  by (simp add: set_sleep_mode_def emit_def)

text \<open>
  C7. Calling \<^verbatim>\<open>setSleepMode\<close> a second time with the same mode and mask leaves the
  object and every register, the sleep mode select field among them, as the first call
  left them.
\<close>

theorem setSleepMode_idempotent:
  "self (setSleepMode a m p (setSleepMode a m p s)) = self (setSleepMode a m p s)
   \<and> io (setSleepMode a m p (setSleepMode a m p s)) = io (setSleepMode a m p s)
   \<and> committed_mode (setSleepMode a m p (setSleepMode a m p s))
       = committed_mode (setSleepMode a m p s)"
proof -
  let ?v = "sleepMode_val (if a then fallback m else m)"
  have 1: "self (setSleepMode a m p t) = (self t)\<lparr>powerBits := p\<rparr>" for t
    unfolding setSleepMode_eq by (simp add: self_set_sleep_mode)
  have 2: "io (setSleepMode a m p t) = io (set_sleep_mode ?v t)" for t
    unfolding setSleepMode_eq by (rule io_set_sleep_mode_self)
  have 3: "io (set_sleep_mode ?v t) = io (set_sleep_mode ?v t')" if "io t = io t'" for t t'
    using that by (simp add: set_sleep_mode_def emit_def)
  have "io (setSleepMode a m p (setSleepMode a m p s))
          = io (set_sleep_mode ?v (set_sleep_mode ?v s))"
    unfolding 2 [of "setSleepMode a m p s"] by (rule 3) (rule 2)
  then have io: "io (setSleepMode a m p (setSleepMode a m p s)) = io (setSleepMode a m p s)"
    by (simp only: 2 set_sleep_mode_twice)
  have "self (setSleepMode a m p (setSleepMode a m p s)) = self (setSleepMode a m p s)"
    by (simp add: 1)
  with io show ?thesis
    by (simp only: committed_mode_def simp_thms)
qed

section \<open>attachPreSleep and attachWakeUp\<close>

lemma ps_after_attaches:
  "ps (self (foldl (\<lambda>t f. attachPreSleep f t) s (fs @ [h]))) = h"
  by (simp add: attachPreSleep_def)

lemma aw_after_attaches:
  "aw (self (foldl (\<lambda>t f. attachWakeUp f t) s (fs @ [h]))) = h"
  by (simp add: attachWakeUp_def)

text \<open>
  C9. \<^verbatim>\<open>attachPreSleep\<close> and \<^verbatim>\<open>attachWakeUp\<close> store the pointer they are given, whatever
  was stored before (null included), so after any sequence of calls the stored hook is
  that of the last call. Each changes its own slot only: the other slot, the mask, the
  saved copy of PRR and the registers stay as they were.
\<close>

theorem attach_replaces_own_slot_only:
  "ps (self (attachPreSleep h s)) = h
   \<and> ps (self (foldl (\<lambda>t f. attachPreSleep f t) s (fs @ [h]))) = h
   \<and> attachPreSleep h s = s\<lparr>self := (self s)\<lparr>ps := h\<rparr>\<rparr>
   \<and> aw (self (attachPreSleep h s)) = aw (self s)
   \<and> powerBits (self (attachPreSleep h s)) = powerBits (self s)
   \<and> copyPRR (self (attachPreSleep h s)) = copyPRR (self s)
   \<and> io (attachPreSleep h s) = io s
   \<and> aw (self (attachWakeUp h s)) = h
   \<and> aw (self (foldl (\<lambda>t f. attachWakeUp f t) s (fs @ [h]))) = h
   \<and> attachWakeUp h s = s\<lparr>self := (self s)\<lparr>aw := h\<rparr>\<rparr>
   \<and> ps (self (attachWakeUp h s)) = ps (self s)
   \<and> powerBits (self (attachWakeUp h s)) = powerBits (self s)
   \<and> copyPRR (self (attachWakeUp h s)) = copyPRR (self s)
   \<and> io (attachWakeUp h s) = io s"
  unfolding ps_after_attaches aw_after_attaches
  by (simp add: attachPreSleep_def attachWakeUp_def)

section \<open>goToSleep, block by block\<close>

lemma flag_test: "(w AND push_bit n 1 \<noteq> 0) = bit w n" for w :: u16
  by (simp add: and_exp_eq_0_iff_not_bit)

lemma AC_test: "(w AND push_bit (unat PM_AC_OFF) 1 \<noteq> 0) = bit w 8" for w :: u16
  unfolding flag_test by (simp add: PM_AC_OFF_def)

lemma BOD_test: "(w AND push_bit (unat PM_BOD_OFF) 1 \<noteq> 0) = bit w 9" for w :: u16
  unfolding flag_test by (simp add: PM_BOD_OFF_def)

lemma WDT_test: "(w AND push_bit (unat PM_WDT_OFF) 1 \<noteq> 0) = bit w 10" for w :: u16
  unfolding flag_test by (simp add: PM_WDT_OFF_def)

lemmas prim_defs = emit_def write_PRR_def write_ACSR_def write_MCUSR_def write_SREG_def
  sleep_enable_def sleep_disable_def sleep_bod_disable_def sleep_cpu_def cli_def sei_def
  wdt_reset_def wdt_disable_def call_hook_def

lemma goToSleep_PRR_simps:
  "trace (goToSleep_PRR s) = trace s @ [W_PRR]"
  "self (goToSleep_PRR s) = (self s)\<lparr>copyPRR := PRR (io s)\<rparr>"
  "io (goToSleep_PRR s) = (io s)\<lparr>PRR := ucast (powerBits (self s) AND 0x00FF)\<rparr>"
  by (simp_all add: goToSleep_PRR_def prim_defs)

lemma goToSleep_AC_simps:
  "trace (goToSleep_AC s) = trace s @ (if bit (powerBits (self s)) 8 then [W_ACSR] else [])"
  "self (goToSleep_AC s) = self s"
  "PRR (io (goToSleep_AC s)) = PRR (io s)"
  unfolding goToSleep_AC_def AC_test by (simp_all add: prim_defs)

lemma goToSleep_WDT_simps:
  "trace (goToSleep_WDT s) =
     trace s @ (if bit (powerBits (self s)) 10 then [WDT_RESET, W_MCUSR, WDT_DISABLE] else [])"
  "self (goToSleep_WDT s) = self s"
  "PRR (io (goToSleep_WDT s)) = PRR (io s)"
  "MCUSR (io (goToSleep_WDT s)) =
     (if bit (powerBits (self s)) 10 then MCUSR (io s) AND BV WDRF else MCUSR (io s))"
  unfolding goToSleep_WDT_def WDT_test by (simp_all add: prim_defs)

lemma goToSleep_preSleep_simps:
  "trace (goToSleep_preSleep s) = trace s @ (if ps (self s) = None then [] else [PRE_SLEEP])"
  "self (goToSleep_preSleep s) = self s"
  "io (goToSleep_preSleep s) = (case ps (self s) of None \<Rightarrow> io s | Some f \<Rightarrow> f (io s))"
  by (simp_all add: goToSleep_preSleep_def prim_defs split: option.split)

lemma goToSleep_sleep_simps:
  "trace (goToSleep_sleep wake s) =
     trace s @ [CLI, SLEEP_ENABLE] @ (if bit (powerBits (self s)) 9 then [BOD_DISABLE] else [])
       @ [SEI, SLEEP_CPU, SLEEP_DISABLE, W_PRR, W_SREG]"
  "self (goToSleep_sleep wake s) = self s"
  "PRR (io (goToSleep_sleep wake s)) = copyPRR (self s)"
  "SREG (io (goToSleep_sleep wake s)) = SREG (io s)"
  unfolding goToSleep_sleep_def BOD_test by (simp_all add: prim_defs Let_def)

lemma goToSleep_afterWake_simps:
  "trace (goToSleep_afterWake s) = trace s @ (if aw (self s) = None then [] else [AFTER_WAKE])"
  "self (goToSleep_afterWake s) = self s"
  "io (goToSleep_afterWake s) = (case aw (self s) of None \<Rightarrow> io s | Some f \<Rightarrow> f (io s))"
  by (simp_all add: goToSleep_afterWake_def prim_defs split: option.split)

lemmas stage_simps = goToSleep_PRR_simps goToSleep_AC_simps goToSleep_WDT_simps
  goToSleep_preSleep_simps goToSleep_sleep_simps goToSleep_afterWake_simps

lemma goToSleep_until_afterWake_simps:
  "self (goToSleep_until_afterWake wake s) = (self s)\<lparr>copyPRR := PRR (io s)\<rparr>"
  "PRR (io (goToSleep_until_afterWake wake s)) = PRR (io s)"
  by (simp_all add: goToSleep_until_afterWake_def stage_simps)

lemma trace_goToSleep:
  "trace (goToSleep wake s) =
     trace s @ [W_PRR]
       @ (if bit (powerBits (self s)) 8 then [W_ACSR] else [])
       @ (if bit (powerBits (self s)) 10 then [WDT_RESET, W_MCUSR, WDT_DISABLE] else [])
       @ (if ps (self s) = None then [] else [PRE_SLEEP])
       @ [CLI, SLEEP_ENABLE]
       @ (if bit (powerBits (self s)) 9 then [BOD_DISABLE] else [])
       @ [SEI, SLEEP_CPU, SLEEP_DISABLE, W_PRR, W_SREG]
       @ (if aw (self s) = None then [] else [AFTER_WAKE])"
  by (simp add: goToSleep_def goToSleep_until_afterWake_def stage_simps)

lemma goToSleep_ops_eq:
  "goToSleep_ops wake s =
     [W_PRR]
       @ (if bit (powerBits (self s)) 8 then [W_ACSR] else [])
       @ (if bit (powerBits (self s)) 10 then [WDT_RESET, W_MCUSR, WDT_DISABLE] else [])
       @ (if ps (self s) = None then [] else [PRE_SLEEP])
       @ [CLI, SLEEP_ENABLE]
       @ (if bit (powerBits (self s)) 9 then [BOD_DISABLE] else [])
       @ [SEI, SLEEP_CPU, SLEEP_DISABLE, W_PRR, W_SREG]
       @ (if aw (self s) = None then [] else [AFTER_WAKE])"
  unfolding goToSleep_ops_def trace_goToSleep by simp

lemma trace_goToSleep_ops: "trace (goToSleep wake s) = trace s @ goToSleep_ops wake s"
  unfolding goToSleep_ops_eq trace_goToSleep by simp

section \<open>goToSleep: what each block and each operation does\<close>

lemma goToSleep_unfold:
  "goToSleep wake s =
     goToSleep_afterWake (goToSleep_sleep wake (goToSleep_preSleep
       (goToSleep_WDT (goToSleep_AC (goToSleep_PRR s)))))"
  by (simp add: goToSleep_def goToSleep_until_afterWake_def)

lemma goToSleep_AC_eq:
  "goToSleep_AC t =
     (if bit (powerBits (self t)) 8 then write_ACSR (ACSR (io t) OR BV ACD) t else t)"
  unfolding goToSleep_AC_def AC_test by (rule refl)

lemma goToSleep_WDT_eq:
  "goToSleep_WDT t =
     (if bit (powerBits (self t)) 10
      then wdt_disable (write_MCUSR (MCUSR (io (wdt_reset t)) AND BV WDRF) (wdt_reset t))
      else t)"
  unfolding goToSleep_WDT_def WDT_test by (simp add: Let_def)

lemma goToSleep_sleep_eq:
  "goToSleep_sleep wake t =
     write_SREG (SREG (io t)) (write_PRR (copyPRR (self t)) (sleep_disable (sleep_cpu wake (sei
       (if bit (powerBits (self t)) 9 then sleep_bod_disable (sleep_enable (cli t))
        else sleep_enable (cli t))))))"
  unfolding goToSleep_sleep_def BOD_test by (simp add: prim_defs Let_def)

lemma goToSleep_preSleep_eq:
  "goToSleep_preSleep t =
     (case ps (self t) of None \<Rightarrow> t | Some f \<Rightarrow> (emit PRE_SLEEP t)\<lparr>io := f (io t)\<rparr>)"
  by (simp add: goToSleep_preSleep_def call_hook_def)

lemma goToSleep_afterWake_eq:
  "goToSleep_afterWake t =
     (case aw (self t) of None \<Rightarrow> t | Some f \<Rightarrow> (emit AFTER_WAKE t)\<lparr>io := f (io t)\<rparr>)"
  by (simp add: goToSleep_afterWake_def call_hook_def)

lemma prim_io:
  "io (cli u) = (io u)\<lparr>SREG := SREG (io u) AND NOT (BV SREG_I)\<rparr>"
  "io (sei u) = (io u)\<lparr>SREG := SREG (io u) OR BV SREG_I\<rparr>"
  "io (sleep_enable u) = (io u)\<lparr>SMCR := SMCR (io u) OR BV SE\<rparr>"
  "io (sleep_disable u) = (io u)\<lparr>SMCR := SMCR (io u) AND NOT (BV SE)\<rparr>"
  "io (sleep_bod_disable u) =
     (io u)\<lparr>MCUCR := (MCUCR (io u) OR (BV BODS OR BV BODSE)) AND NOT (BV BODSE)\<rparr>"
  "io (sleep_cpu wake u) = wake (io u)"
  "io (wdt_reset u) = io u"
  "io (wdt_disable u) = (io u)\<lparr>WDTCSR := 0\<rparr>"
  "io (write_PRR v u) = (io u)\<lparr>PRR := v\<rparr>"
  "io (write_ACSR v u) = (io u)\<lparr>ACSR := v\<rparr>"
  "io (write_MCUSR v u) = (io u)\<lparr>MCUSR := v\<rparr>"
  "io (write_SREG v u) = (io u)\<lparr>SREG := v\<rparr>"
  by (simp_all add: prim_defs)

lemma prim_trace:
  "trace (cli u) = trace u @ [CLI]"
  "trace (sei u) = trace u @ [SEI]"
  "trace (sleep_enable u) = trace u @ [SLEEP_ENABLE]"
  "trace (sleep_disable u) = trace u @ [SLEEP_DISABLE]"
  "trace (sleep_bod_disable u) = trace u @ [BOD_DISABLE]"
  "trace (sleep_cpu wake u) = trace u @ [SLEEP_CPU]"
  "trace (wdt_reset u) = trace u @ [WDT_RESET]"
  "trace (wdt_disable u) = trace u @ [WDT_DISABLE]"
  "trace (write_PRR v u) = trace u @ [W_PRR]"
  "trace (write_ACSR v u) = trace u @ [W_ACSR]"
  "trace (write_MCUSR v u) = trace u @ [W_MCUSR]"
  "trace (write_SREG v u) = trace u @ [W_SREG]"
  by (simp_all add: prim_defs)

lemma prim_self:
  "self (cli u) = self u"
  "self (sei u) = self u"
  "self (sleep_enable u) = self u"
  "self (sleep_disable u) = self u"
  "self (sleep_bod_disable u) = self u"
  "self (sleep_cpu wake u) = self u"
  "self (wdt_reset u) = self u"
  "self (wdt_disable u) = self u"
  "self (write_PRR v u) = self u"
  "self (write_ACSR v u) = self u"
  "self (write_MCUSR v u) = self u"
  "self (write_SREG v u) = self u"
  by (simp_all add: prim_defs)

lemma at_bod_write:
  "bit (SMCR (io (sleep_enable (cli t)))) SE"
  "\<not> bit (SREG (io (sleep_enable (cli t)))) SREG_I"
  "bit (MCUCR (io (sleep_bod_disable (sleep_enable (cli t))))) BODS"
  "\<not> bit (MCUCR (io (sleep_bod_disable (sleep_enable (cli t))))) BODSE"
  "\<not> bit (SREG (io (sleep_bod_disable (sleep_enable (cli t))))) SREG_I"
  "bit (SREG (io (sei (sleep_bod_disable (sleep_enable (cli t)))))) SREG_I"
  "bit (MCUCR (io (sei (sleep_bod_disable (sleep_enable (cli t)))))) BODS"
  "bit (SMCR (io (sei (sleep_bod_disable (sleep_enable (cli t)))))) SE"
  "MCUCR (io (sei (sleep_enable (cli t)))) = MCUCR (io t)"
  by (simp_all add: prim_io BV_def SE_def SREG_I_def BODS_def BODSE_def bit_simps)

lemma stage_powerBits:
  "powerBits (self (goToSleep_PRR s)) = powerBits (self s)"
  "powerBits (self (goToSleep_AC t)) = powerBits (self t)"
  "powerBits (self (goToSleep_WDT t)) = powerBits (self t)"
  "powerBits (self (goToSleep_preSleep t)) = powerBits (self t)"
  by (simp_all add: stage_simps)

lemmas run_defs = example_mcu_def goToSleep_def goToSleep_until_afterWake_def
  goToSleep_PRR_def goToSleep_AC_def goToSleep_WDT_def goToSleep_preSleep_def
  goToSleep_sleep_def goToSleep_afterWake_def prim_defs
  PM_AC_OFF_def PM_BOD_OFF_def PM_WDT_OFF_def BV_def
  WDRF_def SE_def BODS_def BODSE_def SREG_I_def ACD_def

section \<open>goToSleep: the power reduction register\<close>

lemma FF_mask: "(0x00FF :: u16) = mask 8"
  by (simp add: mask_eq_exp_minus_1)

lemma low_byte: "ucast (w AND 0x00FF) = (ucast w :: u8)" for w :: u16
  unfolding FF_mask by (rule bit_eqI) (auto simp add: bit_simps)

lemma low_byte_or_high: "ucast ((m OR push_bit 8 h) AND 0x00FF) = (ucast m :: u8)" for m h :: u16
  unfolding FF_mask by (rule bit_eqI) (auto simp add: bit_simps)

lemma unat_low_byte: "unat (ucast w :: u8) = unat w mod 256" for w :: u16
  by (simp add: unsigned_ucast_eq take_bit_eq_mod)

text \<open>
  C8. The write of lines 69--72, the first operation of \<^verbatim>\<open>goToSleep\<close>, stores the low
  byte of the mask (the mask AND \<^verbatim>\<open>0x00ff\<close>, that is, the mask modulo 256) in PRR.
  Bits 8 and above of the mask, where the flags for the analog comparator, the brown-out
  detector and the watchdog live, do not reach PRR: a mask \<open>m\<close> with any bits \<open>h\<close> added
  from bit 8 upwards writes the low byte of \<open>m\<close>, and the blocks for the comparator and the
  watchdog leave PRR as written.
\<close>

theorem PRR_gets_low_byte_of_mask:
  "PRR (io (goToSleep_PRR s)) = ucast (powerBits (self s) AND 0x00FF)
   \<and> unat (PRR (io (goToSleep_PRR s))) = unat (powerBits (self s)) mod 256
   \<and> PRR (io (goToSleep_PRR (s\<lparr>self := (self s)\<lparr>powerBits := m OR push_bit 8 h\<rparr>\<rparr>))) = ucast m
   \<and> PRR (io (goToSleep_WDT (goToSleep_AC (goToSleep_PRR s)))) = PRR (io (goToSleep_PRR s))
   \<and> goToSleep wake s =
       goToSleep_afterWake (goToSleep_sleep wake (goToSleep_preSleep
         (goToSleep_WDT (goToSleep_AC (goToSleep_PRR s)))))
   \<and> hd (goToSleep_ops wake s) = W_PRR"
proof -
  have "unat (ucast (powerBits (self s) AND 0x00FF) :: u8) = unat (powerBits (self s)) mod 256"
    unfolding low_byte by (rule unat_low_byte)
  then show ?thesis
    by (simp add: goToSleep_PRR_simps goToSleep_AC_simps goToSleep_WDT_simps
        low_byte_or_high goToSleep_def goToSleep_until_afterWake_def goToSleep_ops_eq)
qed

text \<open>
  C2. When the hook after waking is reached (after lines 69--173), PRR holds the value it
  had when \<^verbatim>\<open>goToSleep\<close> was called, whatever the mask, whatever the hook before sleeping
  and the interrupt handler did to the registers; the hook, if there is one, is applied to
  that register file. The restoring write of PRR and the write of SREG are the last two
  operations before the call of the hook.
\<close>

theorem goToSleep_restores_PRR:
  "PRR (io (goToSleep_until_afterWake wake s)) = PRR (io s)
   \<and> self (goToSleep_until_afterWake wake s) = (self s)\<lparr>copyPRR := PRR (io s)\<rparr>
   \<and> goToSleep wake s = goToSleep_afterWake (goToSleep_until_afterWake wake s)
   \<and> io (goToSleep wake s) =
       (case aw (self s) of None \<Rightarrow> io (goToSleep_until_afterWake wake s)
                          | Some f \<Rightarrow> f (io (goToSleep_until_afterWake wake s)))
   \<and> (\<exists>pre. goToSleep_ops wake s = pre @ [W_PRR, W_SREG] @ (if aw (self s) = None then [] else [AFTER_WAKE])
          \<and> AFTER_WAKE \<notin> set pre)"
proof -
  have "io (goToSleep wake s) =
       (case aw (self s) of None \<Rightarrow> io (goToSleep_until_afterWake wake s)
                          | Some f \<Rightarrow> f (io (goToSleep_until_afterWake wake s)))"
    by (simp add: goToSleep_def goToSleep_afterWake_simps goToSleep_until_afterWake_simps)
  moreover have "\<exists>pre. goToSleep_ops wake s = pre @ [W_PRR, W_SREG] @ (if aw (self s) = None then [] else [AFTER_WAKE])
          \<and> AFTER_WAKE \<notin> set pre"
    unfolding goToSleep_ops_eq
    by (rule exI [of _ "[W_PRR]
       @ (if bit (powerBits (self s)) 8 then [W_ACSR] else [])
       @ (if bit (powerBits (self s)) 10 then [WDT_RESET, W_MCUSR, WDT_DISABLE] else [])
       @ (if ps (self s) = None then [] else [PRE_SLEEP])
       @ [CLI, SLEEP_ENABLE]
       @ (if bit (powerBits (self s)) 9 then [BOD_DISABLE] else [])
       @ [SEI, SLEEP_CPU, SLEEP_DISABLE]"]) simp
  ultimately show ?thesis
    by (simp add: goToSleep_until_afterWake_simps goToSleep_def)
qed

section \<open>goToSleep: the order of operations\<close>

text \<open>
  C3. With bit 9 of the mask set, the operations of one call contain
  \<^verbatim>\<open>sleep_enable\<close>, \<^verbatim>\<open>sleep_bod_disable\<close>, \<^verbatim>\<open>sei\<close>, \<^verbatim>\<open>sleep_cpu\<close> next to each
  other in this order, each of them once: the brown-out detector is disabled after sleep
  was enabled and before the sleep instruction, with one operation (\<^verbatim>\<open>sei\<close>) in between,
  and interrupts, disabled before by \<^verbatim>\<open>cli\<close>, are enabled only after the brown-out
  detector was disabled. With bit 9 clear the brown-out detector is not touched.

  The operations are those of the code: \<^verbatim>\<open>goToSleep\<close> runs its blocks in the order of
  the source, the mask reaches the block of lines 110--173 unchanged, and that block is
  \<^verbatim>\<open>cli\<close>, \<^verbatim>\<open>sleep_enable\<close>, \<^verbatim>\<open>sleep_bod_disable\<close> if bit 9 is set, \<^verbatim>\<open>sei\<close>,
  \<^verbatim>\<open>sleep_cpu\<close>, \<^verbatim>\<open>sleep_disable\<close> and the two restoring writes, in this order. Each
  of them records its operation and writes its register: when MCUCR is written SE is set
  and the I flag is clear; the sleep instruction finds BODS set, BODSE clear, SE set and
  the I flag set; without bit 9 it finds MCUCR as it was.
\<close>

theorem bod_disable_adjacent_to_sleep:
  "(bit (powerBits (self s)) 9 \<longrightarrow>
      (\<exists>pre post. goToSleep_ops wake s = pre @ [SLEEP_ENABLE, BOD_DISABLE, SEI, SLEEP_CPU] @ post
         \<and> {SLEEP_ENABLE, BOD_DISABLE, SEI, SLEEP_CPU} \<inter> (set pre \<union> set post) = {}
         \<and> CLI \<in> set pre))
   \<and> (\<not> bit (powerBits (self s)) 9 \<longrightarrow> BOD_DISABLE \<notin> set (goToSleep_ops wake s))
   \<and> goToSleep wake s =
       goToSleep_afterWake (goToSleep_sleep wake (goToSleep_preSleep
         (goToSleep_WDT (goToSleep_AC (goToSleep_PRR s)))))
   \<and> powerBits (self (goToSleep_preSleep (goToSleep_WDT (goToSleep_AC (goToSleep_PRR s)))))
       = powerBits (self s)
   \<and> goToSleep_sleep wake t =
       write_SREG (SREG (io t)) (write_PRR (copyPRR (self t)) (sleep_disable (sleep_cpu wake (sei
         (if bit (powerBits (self t)) 9 then sleep_bod_disable (sleep_enable (cli t))
          else sleep_enable (cli t))))))
   \<and> io (cli u) = (io u)\<lparr>SREG := SREG (io u) AND NOT (BV SREG_I)\<rparr>
   \<and> trace (cli u) = trace u @ [CLI]
   \<and> io (sleep_enable u) = (io u)\<lparr>SMCR := SMCR (io u) OR BV SE\<rparr>
   \<and> trace (sleep_enable u) = trace u @ [SLEEP_ENABLE]
   \<and> io (sleep_bod_disable u) =
       (io u)\<lparr>MCUCR := (MCUCR (io u) OR (BV BODS OR BV BODSE)) AND NOT (BV BODSE)\<rparr>
   \<and> trace (sleep_bod_disable u) = trace u @ [BOD_DISABLE]
   \<and> io (sei u) = (io u)\<lparr>SREG := SREG (io u) OR BV SREG_I\<rparr>
   \<and> trace (sei u) = trace u @ [SEI]
   \<and> io (sleep_cpu wake u) = wake (io u)
   \<and> trace (sleep_cpu wake u) = trace u @ [SLEEP_CPU]
   \<and> bit (SMCR (io (sleep_enable (cli t)))) SE
   \<and> \<not> bit (SREG (io (sleep_enable (cli t)))) SREG_I
   \<and> bit (MCUCR (io (sleep_bod_disable (sleep_enable (cli t))))) BODS
   \<and> \<not> bit (MCUCR (io (sleep_bod_disable (sleep_enable (cli t))))) BODSE
   \<and> \<not> bit (SREG (io (sleep_bod_disable (sleep_enable (cli t))))) SREG_I
   \<and> bit (SREG (io (sei (sleep_bod_disable (sleep_enable (cli t)))))) SREG_I
   \<and> bit (MCUCR (io (sei (sleep_bod_disable (sleep_enable (cli t)))))) BODS
   \<and> bit (SMCR (io (sei (sleep_bod_disable (sleep_enable (cli t)))))) SE
   \<and> MCUCR (io (sei (sleep_enable (cli t)))) = MCUCR (io t)"
proof -
  let ?pre = "[W_PRR]
       @ (if bit (powerBits (self s)) 8 then [W_ACSR] else [])
       @ (if bit (powerBits (self s)) 10 then [WDT_RESET, W_MCUSR, WDT_DISABLE] else [])
       @ (if ps (self s) = None then [] else [PRE_SLEEP])
       @ [CLI]"
  let ?post = "[SLEEP_DISABLE, W_PRR, W_SREG] @ (if aw (self s) = None then [] else [AFTER_WAKE])"
  have set: "bit (powerBits (self s)) 9 \<longrightarrow>
      (\<exists>pre post. goToSleep_ops wake s = pre @ [SLEEP_ENABLE, BOD_DISABLE, SEI, SLEEP_CPU] @ post
         \<and> {SLEEP_ENABLE, BOD_DISABLE, SEI, SLEEP_CPU} \<inter> (set pre \<union> set post) = {}
         \<and> CLI \<in> set pre)"
  proof
    assume b: "bit (powerBits (self s)) 9"
    have "goToSleep_ops wake s = ?pre @ [SLEEP_ENABLE, BOD_DISABLE, SEI, SLEEP_CPU] @ ?post"
      unfolding goToSleep_ops_eq using b by simp
    moreover have "{SLEEP_ENABLE, BOD_DISABLE, SEI, SLEEP_CPU} \<inter> (set ?pre \<union> set ?post) = {}"
      by simp
    moreover have "CLI \<in> set ?pre"
      by simp
    ultimately show "\<exists>pre post.
         goToSleep_ops wake s = pre @ [SLEEP_ENABLE, BOD_DISABLE, SEI, SLEEP_CPU] @ post
         \<and> {SLEEP_ENABLE, BOD_DISABLE, SEI, SLEEP_CPU} \<inter> (set pre \<union> set post) = {}
         \<and> CLI \<in> set pre"
      by blast
  qed
  have clear: "\<not> bit (powerBits (self s)) 9 \<longrightarrow> BOD_DISABLE \<notin> set (goToSleep_ops wake s)"
    unfolding goToSleep_ops_eq by simp
  have pb: "powerBits (self (goToSleep_preSleep (goToSleep_WDT (goToSleep_AC (goToSleep_PRR s)))))
       = powerBits (self s)"
    by (simp only: stage_powerBits)
  from set clear goToSleep_unfold [of wake s] pb goToSleep_sleep_eq [of wake t]
    prim_io(1) [of u] prim_trace(1) [of u] prim_io(3) [of u] prim_trace(3) [of u]
    prim_io(5) [of u] prim_trace(5) [of u] prim_io(2) [of u] prim_trace(2) [of u]
    prim_io(6) [of wake u] prim_trace(6) [of wake u] at_bod_write [of t]
  show ?thesis
    by (intro conjI)
qed

theorem bod_disable_adjacent_to_sleep_witness:
  "bit (powerBits (self (example_mcu 0x0200 None None))) 9
   \<and> (\<exists>pre post. goToSleep_ops id (example_mcu 0x0200 None None)
          = pre @ [SLEEP_ENABLE, BOD_DISABLE, SEI, SLEEP_CPU] @ post
         \<and> {SLEEP_ENABLE, BOD_DISABLE, SEI, SLEEP_CPU} \<inter> (set pre \<union> set post) = {}
         \<and> CLI \<in> set pre)
   \<and> MCUCR (io (goToSleep id (example_mcu 0x0200 None None))) = BV BODS
   \<and> \<not> bit (powerBits (self (example_mcu 0x00EF None None))) 9
   \<and> BOD_DISABLE \<notin> set (goToSleep_ops id (example_mcu 0x00EF None None))
   \<and> MCUCR (io (goToSleep id (example_mcu 0x00EF None None))) = 0"
proof -
  have a: "bit (powerBits (self (example_mcu 0x0200 None None))) 9"
    by (simp add: example_mcu_def)
  have b: "\<not> bit (powerBits (self (example_mcu 0x00EF None None))) 9"
    by (simp add: example_mcu_def)
  have c: "MCUCR (io (goToSleep id (example_mcu 0x0200 None None))) = BV BODS"
    "MCUCR (io (goToSleep id (example_mcu 0x00EF None None))) = 0"
    by (simp_all add: run_defs)
  from a b c
    bod_disable_adjacent_to_sleep [of "example_mcu 0x0200 None None" id]
    bod_disable_adjacent_to_sleep [of "example_mcu 0x00EF None None" id]
  show ?thesis by blast
qed

text \<open>
  C5. With bit 10 of the mask set, the operations of one call contain \<^verbatim>\<open>wdt_reset\<close>,
  the write of MCUSR and \<^verbatim>\<open>wdt_disable\<close> next to each other in this order, each of them
  once: the watchdog is reset and its status flag written before it is disabled. With
  bit 10 clear none of the three happens.

  The operations are those of the code: \<^verbatim>\<open>goToSleep\<close> runs its blocks in the order of
  the source, the mask reaches the watchdog block unchanged, and that block is
  \<^verbatim>\<open>wdt_disable\<close> after the write of MCUSR after \<^verbatim>\<open>wdt_reset\<close> if bit 10 is set, and
  nothing otherwise. Each of the three records its operation and has its effect on the
  registers; after the block WDTCSR is zero if bit 10 is set and as before if not.
\<close>

theorem watchdog_reset_before_disable:
  "(bit (powerBits (self s)) 10 \<longrightarrow>
      (\<exists>pre post. goToSleep_ops wake s = pre @ [WDT_RESET, W_MCUSR, WDT_DISABLE] @ post
         \<and> {WDT_RESET, W_MCUSR, WDT_DISABLE} \<inter> (set pre \<union> set post) = {}))
   \<and> (\<not> bit (powerBits (self s)) 10 \<longrightarrow>
        {WDT_RESET, W_MCUSR, WDT_DISABLE} \<inter> set (goToSleep_ops wake s) = {})
   \<and> goToSleep wake s =
       goToSleep_afterWake (goToSleep_sleep wake (goToSleep_preSleep
         (goToSleep_WDT (goToSleep_AC (goToSleep_PRR s)))))
   \<and> powerBits (self (goToSleep_AC (goToSleep_PRR s))) = powerBits (self s)
   \<and> goToSleep_WDT t =
       (if bit (powerBits (self t)) 10
        then wdt_disable (write_MCUSR (MCUSR (io (wdt_reset t)) AND BV WDRF) (wdt_reset t))
        else t)
   \<and> io (wdt_reset u) = io u
   \<and> trace (wdt_reset u) = trace u @ [WDT_RESET]
   \<and> io (write_MCUSR v u) = (io u)\<lparr>MCUSR := v\<rparr>
   \<and> trace (write_MCUSR v u) = trace u @ [W_MCUSR]
   \<and> io (wdt_disable u) = (io u)\<lparr>WDTCSR := 0\<rparr>
   \<and> trace (wdt_disable u) = trace u @ [WDT_DISABLE]
   \<and> WDTCSR (io (goToSleep_WDT t)) = (if bit (powerBits (self t)) 10 then 0 else WDTCSR (io t))
   \<and> WDTCSR (io (goToSleep_WDT (goToSleep_AC (goToSleep_PRR s))))
       = (if bit (powerBits (self s)) 10 then 0 else WDTCSR (io s))"
proof -
  let ?pre = "[W_PRR] @ (if bit (powerBits (self s)) 8 then [W_ACSR] else [])"
  let ?post = "(if ps (self s) = None then [] else [PRE_SLEEP])
       @ [CLI, SLEEP_ENABLE]
       @ (if bit (powerBits (self s)) 9 then [BOD_DISABLE] else [])
       @ [SEI, SLEEP_CPU, SLEEP_DISABLE, W_PRR, W_SREG]
       @ (if aw (self s) = None then [] else [AFTER_WAKE])"
  have set: "bit (powerBits (self s)) 10 \<longrightarrow>
      (\<exists>pre post. goToSleep_ops wake s = pre @ [WDT_RESET, W_MCUSR, WDT_DISABLE] @ post
         \<and> {WDT_RESET, W_MCUSR, WDT_DISABLE} \<inter> (set pre \<union> set post) = {})"
  proof
    assume b: "bit (powerBits (self s)) 10"
    have "goToSleep_ops wake s = ?pre @ [WDT_RESET, W_MCUSR, WDT_DISABLE] @ ?post"
      unfolding goToSleep_ops_eq using b by simp
    moreover have "{WDT_RESET, W_MCUSR, WDT_DISABLE} \<inter> (set ?pre \<union> set ?post) = {}"
      by simp
    ultimately show "\<exists>pre post.
         goToSleep_ops wake s = pre @ [WDT_RESET, W_MCUSR, WDT_DISABLE] @ post
         \<and> {WDT_RESET, W_MCUSR, WDT_DISABLE} \<inter> (set pre \<union> set post) = {}"
      by blast
  qed
  have clear: "\<not> bit (powerBits (self s)) 10 \<longrightarrow>
        {WDT_RESET, W_MCUSR, WDT_DISABLE} \<inter> set (goToSleep_ops wake s) = {}"
    unfolding goToSleep_ops_eq by simp
  have pb: "powerBits (self (goToSleep_AC (goToSleep_PRR s))) = powerBits (self s)"
    by (simp only: stage_powerBits)
  have w: "WDTCSR (io (goToSleep_WDT t)) = (if bit (powerBits (self t)) 10 then 0 else WDTCSR (io t))"
    for t
    unfolding goToSleep_WDT_eq by (simp add: prim_io)
  have w': "WDTCSR (io (goToSleep_WDT (goToSleep_AC (goToSleep_PRR s))))
       = (if bit (powerBits (self s)) 10 then 0 else WDTCSR (io s))"
    unfolding w pb by (simp add: goToSleep_AC_eq prim_io goToSleep_PRR_simps)
  from set clear goToSleep_unfold [of wake s] pb goToSleep_WDT_eq [of t]
    prim_io(7) [of u] prim_trace(7) [of u] prim_io(11) [of v u] prim_trace(11) [of v u]
    prim_io(8) [of u] prim_trace(8) [of u] w [of t] w'
  show ?thesis
    by (intro conjI)
qed

theorem watchdog_reset_before_disable_witness:
  "bit (powerBits (self (example_mcu 0x0400 None None))) 10
   \<and> (\<exists>pre post. goToSleep_ops id (example_mcu 0x0400 None None)
          = pre @ [WDT_RESET, W_MCUSR, WDT_DISABLE] @ post
         \<and> {WDT_RESET, W_MCUSR, WDT_DISABLE} \<inter> (set pre \<union> set post) = {})
   \<and> WDTCSR (io (example_mcu 0x0400 None None)) = 8
   \<and> WDTCSR (io (goToSleep id (example_mcu 0x0400 None None))) = 0
   \<and> \<not> bit (powerBits (self (example_mcu 0x03EF None None))) 10
   \<and> {WDT_RESET, W_MCUSR, WDT_DISABLE} \<inter> set (goToSleep_ops id (example_mcu 0x03EF None None)) = {}
   \<and> WDTCSR (io (goToSleep id (example_mcu 0x03EF None None))) = 8"
proof -
  have a: "bit (powerBits (self (example_mcu 0x0400 None None))) 10"
    by (simp add: example_mcu_def)
  have b: "\<not> bit (powerBits (self (example_mcu 0x03EF None None))) 10"
    by (simp add: example_mcu_def)
  have c: "WDTCSR (io (example_mcu 0x0400 None None)) = 8"
    "WDTCSR (io (goToSleep id (example_mcu 0x0400 None None))) = 0"
    "WDTCSR (io (goToSleep id (example_mcu 0x03EF None None))) = 8"
    by (simp_all add: run_defs)
  from a b c
    watchdog_reset_before_disable [of "example_mcu 0x0400 None None" id]
    watchdog_reset_before_disable [of "example_mcu 0x03EF None None" id]
  show ?thesis by blast
qed

text \<open>
  C6. A registered hook before sleeping is called once, before \<^verbatim>\<open>cli\<close>; a registered
  hook after waking is called once, as the last operation, right after the only write
  that restores SREG. A null pointer is not called: no call is recorded, the registers
  stay as they are, and \<^verbatim>\<open>goToSleep\<close>, a total function, goes on with the next block.
  A registered hook acts once on the registers.

  The calls are those of the code: \<^verbatim>\<open>goToSleep\<close> runs its blocks in the order of the
  source; the blocks of the hooks apply the stored pointer, if it is not null, to the
  registers and record the call; the block in between, which starts with \<^verbatim>\<open>cli\<close> and
  ends with the write of SREG, calls no hook. The hook before sleeping finds SREG as it
  was at the call of \<^verbatim>\<open>goToSleep\<close> and the registers as the blocks before it left them;
  the hook after waking finds SREG as the hook before sleeping left it, and what it
  returns are the registers at the end of \<^verbatim>\<open>goToSleep\<close>.
\<close>

theorem hooks_called_once_in_order:
  "(ps (self s) \<noteq> None \<longrightarrow>
      count_list (goToSleep_ops wake s) PRE_SLEEP = 1
      \<and> (\<exists>pre post. goToSleep_ops wake s = pre @ [PRE_SLEEP] @ post
            \<and> CLI \<notin> set pre \<and> CLI \<in> set post))
   \<and> (ps (self s) = None \<longrightarrow> count_list (goToSleep_ops wake s) PRE_SLEEP = 0)
   \<and> (aw (self s) \<noteq> None \<longrightarrow>
        count_list (goToSleep_ops wake s) AFTER_WAKE = 1
        \<and> (\<exists>pre. goToSleep_ops wake s = pre @ [W_SREG, AFTER_WAKE] \<and> W_SREG \<notin> set pre))
   \<and> (aw (self s) = None \<longrightarrow> count_list (goToSleep_ops wake s) AFTER_WAKE = 0)
   \<and> io (goToSleep_preSleep s) = (case ps (self s) of None \<Rightarrow> io s | Some f \<Rightarrow> f (io s))
   \<and> io (goToSleep_afterWake s) = (case aw (self s) of None \<Rightarrow> io s | Some f \<Rightarrow> f (io s))
   \<and> goToSleep wake s =
       goToSleep_afterWake (goToSleep_sleep wake (goToSleep_preSleep
         (goToSleep_WDT (goToSleep_AC (goToSleep_PRR s)))))
   \<and> goToSleep_preSleep t =
       (case ps (self t) of None \<Rightarrow> t | Some f \<Rightarrow> (emit PRE_SLEEP t)\<lparr>io := f (io t)\<rparr>)
   \<and> goToSleep_afterWake t =
       (case aw (self t) of None \<Rightarrow> t | Some f \<Rightarrow> (emit AFTER_WAKE t)\<lparr>io := f (io t)\<rparr>)
   \<and> goToSleep_sleep wake t =
       write_SREG (SREG (io t)) (write_PRR (copyPRR (self t)) (sleep_disable (sleep_cpu wake (sei
         (if bit (powerBits (self t)) 9 then sleep_bod_disable (sleep_enable (cli t))
          else sleep_enable (cli t))))))
   \<and> ps (self (goToSleep_WDT (goToSleep_AC (goToSleep_PRR s)))) = ps (self s)
   \<and> aw (self (goToSleep_sleep wake (goToSleep_preSleep
         (goToSleep_WDT (goToSleep_AC (goToSleep_PRR s)))))) = aw (self s)
   \<and> SREG (io (goToSleep_WDT (goToSleep_AC (goToSleep_PRR s)))) = SREG (io s)
   \<and> io (goToSleep_preSleep (goToSleep_WDT (goToSleep_AC (goToSleep_PRR s)))) =
       (case ps (self s) of
          None \<Rightarrow> io (goToSleep_WDT (goToSleep_AC (goToSleep_PRR s)))
        | Some f \<Rightarrow> f (io (goToSleep_WDT (goToSleep_AC (goToSleep_PRR s)))))
   \<and> io (cli t) = (io t)\<lparr>SREG := SREG (io t) AND NOT (BV SREG_I)\<rparr>
   \<and> SREG (io (goToSleep_sleep wake t)) = SREG (io t)
   \<and> io (goToSleep wake s) =
       (case aw (self s) of
          None \<Rightarrow> io (goToSleep_sleep wake (goToSleep_preSleep
                    (goToSleep_WDT (goToSleep_AC (goToSleep_PRR s)))))
        | Some g \<Rightarrow> g (io (goToSleep_sleep wake (goToSleep_preSleep
                    (goToSleep_WDT (goToSleep_AC (goToSleep_PRR s)))))))"
proof -
  let ?a = "[W_PRR]
       @ (if bit (powerBits (self s)) 8 then [W_ACSR] else [])
       @ (if bit (powerBits (self s)) 10 then [WDT_RESET, W_MCUSR, WDT_DISABLE] else [])"
  let ?b = "[CLI, SLEEP_ENABLE]
       @ (if bit (powerBits (self s)) 9 then [BOD_DISABLE] else [])
       @ [SEI, SLEEP_CPU, SLEEP_DISABLE, W_PRR]"
  let ?X = "goToSleep_WDT (goToSleep_AC (goToSleep_PRR s))"
  have p1: "ps (self s) \<noteq> None \<longrightarrow>
      count_list (goToSleep_ops wake s) PRE_SLEEP = 1
      \<and> (\<exists>pre post. goToSleep_ops wake s = pre @ [PRE_SLEEP] @ post
            \<and> CLI \<notin> set pre \<and> CLI \<in> set post)"
  proof (intro impI conjI)
    assume p: "ps (self s) \<noteq> None"
    then show "count_list (goToSleep_ops wake s) PRE_SLEEP = 1"
      unfolding goToSleep_ops_eq by simp
    let ?post = "?b @ [W_SREG] @ (if aw (self s) = None then [] else [AFTER_WAKE])"
    have "goToSleep_ops wake s = ?a @ [PRE_SLEEP] @ ?post"
      unfolding goToSleep_ops_eq using p by simp
    moreover have "CLI \<notin> set ?a" "CLI \<in> set ?post"
      by simp_all
    ultimately show "\<exists>pre post. goToSleep_ops wake s = pre @ [PRE_SLEEP] @ post
            \<and> CLI \<notin> set pre \<and> CLI \<in> set post"
      by blast
  qed
  have p0: "ps (self s) = None \<longrightarrow> count_list (goToSleep_ops wake s) PRE_SLEEP = 0"
    unfolding goToSleep_ops_eq by simp
  have a1: "aw (self s) \<noteq> None \<longrightarrow>
        count_list (goToSleep_ops wake s) AFTER_WAKE = 1
        \<and> (\<exists>pre. goToSleep_ops wake s = pre @ [W_SREG, AFTER_WAKE] \<and> W_SREG \<notin> set pre)"
  proof (intro impI conjI)
    assume p: "aw (self s) \<noteq> None"
    then show "count_list (goToSleep_ops wake s) AFTER_WAKE = 1"
      unfolding goToSleep_ops_eq by simp
    let ?pre = "?a @ (if ps (self s) = None then [] else [PRE_SLEEP]) @ ?b"
    have "goToSleep_ops wake s = ?pre @ [W_SREG, AFTER_WAKE]"
      unfolding goToSleep_ops_eq using p by simp
    moreover have "W_SREG \<notin> set ?pre"
      by simp
    ultimately show "\<exists>pre. goToSleep_ops wake s = pre @ [W_SREG, AFTER_WAKE] \<and> W_SREG \<notin> set pre"
      by blast
  qed
  have a0: "aw (self s) = None \<longrightarrow> count_list (goToSleep_ops wake s) AFTER_WAKE = 0"
    unfolding goToSleep_ops_eq by simp
  have psX: "ps (self ?X) = ps (self s)"
    by (simp add: stage_simps)
  have awX: "aw (self (goToSleep_sleep wake (goToSleep_preSleep ?X))) = aw (self s)"
    by (simp add: stage_simps)
  have sregX: "SREG (io ?X) = SREG (io s)"
    by (simp add: goToSleep_WDT_eq goToSleep_AC_eq prim_io prim_self goToSleep_PRR_simps)
  have ioP: "io (goToSleep_preSleep ?X) =
       (case ps (self s) of None \<Rightarrow> io ?X | Some f \<Rightarrow> f (io ?X))"
    unfolding goToSleep_preSleep_simps(3) psX by (rule refl)
  have ioG: "io (goToSleep wake s) =
       (case aw (self s) of
          None \<Rightarrow> io (goToSleep_sleep wake (goToSleep_preSleep ?X))
        | Some g \<Rightarrow> g (io (goToSleep_sleep wake (goToSleep_preSleep ?X))))"
    unfolding goToSleep_unfold goToSleep_afterWake_simps(3) awX by (rule refl)
  from p1 p0 a1 a0 goToSleep_preSleep_simps(3) [of s] goToSleep_afterWake_simps(3) [of s]
    goToSleep_unfold [of wake s] goToSleep_preSleep_eq [of t] goToSleep_afterWake_eq [of t]
    goToSleep_sleep_eq [of wake t] psX awX sregX ioP prim_io(1) [of t]
    goToSleep_sleep_simps(4) [of wake t] ioG
  show ?thesis
    by (intro conjI)
qed

theorem hooks_called_once_in_order_witness:
  "ps (self (example_mcu 0 (Some (\<lambda>r. r\<lparr>ACSR := ACSR r + 1\<rparr>))
                          (Some (\<lambda>r. r\<lparr>MCUCR := MCUCR r + 1\<rparr>)))) \<noteq> None
   \<and> count_list (goToSleep_ops id (example_mcu 0 (Some (\<lambda>r. r\<lparr>ACSR := ACSR r + 1\<rparr>))
                          (Some (\<lambda>r. r\<lparr>MCUCR := MCUCR r + 1\<rparr>)))) PRE_SLEEP = 1
   \<and> (\<exists>pre post. goToSleep_ops id (example_mcu 0 (Some (\<lambda>r. r\<lparr>ACSR := ACSR r + 1\<rparr>))
                          (Some (\<lambda>r. r\<lparr>MCUCR := MCUCR r + 1\<rparr>))) = pre @ [PRE_SLEEP] @ post
          \<and> CLI \<notin> set pre \<and> CLI \<in> set post)
   \<and> aw (self (example_mcu 0 (Some (\<lambda>r. r\<lparr>ACSR := ACSR r + 1\<rparr>))
                          (Some (\<lambda>r. r\<lparr>MCUCR := MCUCR r + 1\<rparr>)))) \<noteq> None
   \<and> count_list (goToSleep_ops id (example_mcu 0 (Some (\<lambda>r. r\<lparr>ACSR := ACSR r + 1\<rparr>))
                          (Some (\<lambda>r. r\<lparr>MCUCR := MCUCR r + 1\<rparr>)))) AFTER_WAKE = 1
   \<and> (\<exists>pre. goToSleep_ops id (example_mcu 0 (Some (\<lambda>r. r\<lparr>ACSR := ACSR r + 1\<rparr>))
                          (Some (\<lambda>r. r\<lparr>MCUCR := MCUCR r + 1\<rparr>))) = pre @ [W_SREG, AFTER_WAKE]
          \<and> W_SREG \<notin> set pre)
   \<and> ACSR (io (goToSleep id (example_mcu 0 (Some (\<lambda>r. r\<lparr>ACSR := ACSR r + 1\<rparr>))
                          (Some (\<lambda>r. r\<lparr>MCUCR := MCUCR r + 1\<rparr>))))) = 1
   \<and> MCUCR (io (goToSleep id (example_mcu 0 (Some (\<lambda>r. r\<lparr>ACSR := ACSR r + 1\<rparr>))
                          (Some (\<lambda>r. r\<lparr>MCUCR := MCUCR r + 1\<rparr>))))) = 1
   \<and> ps (self (example_mcu 0 None None)) = None
   \<and> count_list (goToSleep_ops id (example_mcu 0 None None)) PRE_SLEEP = 0
   \<and> aw (self (example_mcu 0 None None)) = None
   \<and> count_list (goToSleep_ops id (example_mcu 0 None None)) AFTER_WAKE = 0
   \<and> ACSR (io (goToSleep id (example_mcu 0 None None))) = 0
   \<and> MCUCR (io (goToSleep id (example_mcu 0 None None))) = 0"
proof -
  let ?A = "example_mcu 0 (Some (\<lambda>r. r\<lparr>ACSR := ACSR r + 1\<rparr>))
                          (Some (\<lambda>r. r\<lparr>MCUCR := MCUCR r + 1\<rparr>))"
  let ?B = "example_mcu 0 None None"
  have a: "ps (self ?A) \<noteq> None" "aw (self ?A) \<noteq> None"
    by (simp_all add: example_mcu_def)
  have b: "ps (self ?B) = None" "aw (self ?B) = None"
    by (simp_all add: example_mcu_def)
  have c: "ACSR (io (goToSleep id ?A)) = 1" "MCUCR (io (goToSleep id ?A)) = 1"
    "ACSR (io (goToSleep id ?B)) = 0" "MCUCR (io (goToSleep id ?B)) = 0"
    by (simp_all add: run_defs)
  note A = hooks_called_once_in_order [of ?A id]
  note B = hooks_called_once_in_order [of ?B id]
  from A a have A1: "count_list (goToSleep_ops id ?A) PRE_SLEEP = 1"
    "\<exists>pre post. goToSleep_ops id ?A = pre @ [PRE_SLEEP] @ post
          \<and> CLI \<notin> set pre \<and> CLI \<in> set post"
    "count_list (goToSleep_ops id ?A) AFTER_WAKE = 1"
    "\<exists>pre. goToSleep_ops id ?A = pre @ [W_SREG, AFTER_WAKE] \<and> W_SREG \<notin> set pre"
    by blast+
  from B b have B1: "count_list (goToSleep_ops id ?B) PRE_SLEEP = 0"
    "count_list (goToSleep_ops id ?B) AFTER_WAKE = 0"
    by blast+
  from a b c A1 B1 show ?thesis
    by (intro conjI)
qed

section \<open>goToSleep: the flags above the low byte\<close>

lemma bit_as_mask:
  "bit w 8 = (w AND 0x0100 \<noteq> 0)" "bit w 9 = (w AND 0x0200 \<noteq> 0)"
  "bit w 10 = (w AND 0x0400 \<noteq> 0)" for w :: u16
  using flag_test [of w 8] flag_test [of w 9] flag_test [of w 10] by simp_all

text \<open>
  C10. \<^verbatim>\<open>PM_AC_OFF\<close>, \<^verbatim>\<open>PM_BOD_OFF\<close> and \<^verbatim>\<open>PM_WDT_OFF\<close> are the bit numbers 8, 9
  and 10, not masks; \<^verbatim>\<open>PM_AC_OFF\<close> is the same value as \<^verbatim>\<open>PM_TIMER1_OFF\<close>. With the
  bare value \<^verbatim>\<open>PM_AC_OFF\<close> as the mask, \<^verbatim>\<open>goToSleep\<close> writes the Timer 1 bit to PRR
  and runs none of the blocks for the comparator, the watchdog and the brown-out
  detector. Those blocks run exactly when bit 8, bit 10 and bit 9 of the mask (the values
  \<^verbatim>\<open>0x100\<close>, \<^verbatim>\<open>0x400\<close>, \<^verbatim>\<open>0x200\<close>) are set.

  Running a block is what the code does: \<^verbatim>\<open>goToSleep\<close> runs its blocks in the order of
  the source and none of them changes the mask; the comparator block sets ACD in ACSR if
  bit 8 is set and does nothing otherwise; the watchdog block resets the watchdog, writes
  MCUSR and clears WDTCSR if bit 10 is set and does nothing otherwise; the block of lines
  110--173 writes MCUCR, setting BODS, if bit 9 is set and leaves it out otherwise. With
  the mask \<^verbatim>\<open>PM_AC_OFF\<close> the first block leaves the registers as they were but for PRR,
  which holds the Timer 1 bit alone, and the rest of \<^verbatim>\<open>goToSleep\<close> is the hook before
  sleeping, \<^verbatim>\<open>cli\<close>, \<^verbatim>\<open>sleep_enable\<close>, \<^verbatim>\<open>sei\<close>, \<^verbatim>\<open>sleep_cpu\<close>, \<^verbatim>\<open>sleep_disable\<close>,
  the two restoring writes and the hook after waking.
\<close>

theorem synthetic_flags_are_bit_indices:
  "PM_AC_OFF = 8 \<and> PM_BOD_OFF = 9 \<and> PM_WDT_OFF = 10
   \<and> PM_AC_OFF = PM_TIMER1_OFF
   \<and> PRR (io (goToSleep_PRR (s\<lparr>self := (self s)\<lparr>powerBits := PM_AC_OFF\<rparr>\<rparr>))) = BV PRTIM1
   \<and> {W_ACSR, WDT_RESET, W_MCUSR, WDT_DISABLE, BOD_DISABLE}
        \<inter> set (goToSleep_ops wake (s\<lparr>self := (self s)\<lparr>powerBits := PM_AC_OFF\<rparr>\<rparr>)) = {}
   \<and> (W_ACSR \<in> set (goToSleep_ops wake s)) = bit (powerBits (self s)) 8
   \<and> (BOD_DISABLE \<in> set (goToSleep_ops wake s)) = bit (powerBits (self s)) 9
   \<and> (WDT_RESET \<in> set (goToSleep_ops wake s)) = bit (powerBits (self s)) 10
   \<and> (W_MCUSR \<in> set (goToSleep_ops wake s)) = bit (powerBits (self s)) 10
   \<and> (WDT_DISABLE \<in> set (goToSleep_ops wake s)) = bit (powerBits (self s)) 10
   \<and> bit (powerBits (self s)) 8 = (powerBits (self s) AND 0x0100 \<noteq> 0)
   \<and> bit (powerBits (self s)) 9 = (powerBits (self s) AND 0x0200 \<noteq> 0)
   \<and> bit (powerBits (self s)) 10 = (powerBits (self s) AND 0x0400 \<noteq> 0)
   \<and> goToSleep wake s =
       goToSleep_afterWake (goToSleep_sleep wake (goToSleep_preSleep
         (goToSleep_WDT (goToSleep_AC (goToSleep_PRR s)))))
   \<and> powerBits (self (goToSleep_PRR s)) = powerBits (self s)
   \<and> powerBits (self (goToSleep_AC t)) = powerBits (self t)
   \<and> powerBits (self (goToSleep_WDT t)) = powerBits (self t)
   \<and> powerBits (self (goToSleep_preSleep t)) = powerBits (self t)
   \<and> io (goToSleep_PRR s) = (io s)\<lparr>PRR := ucast (powerBits (self s) AND 0x00FF)\<rparr>
   \<and> goToSleep_AC t =
       (if bit (powerBits (self t)) 8 then write_ACSR (ACSR (io t) OR BV ACD) t else t)
   \<and> goToSleep_WDT t =
       (if bit (powerBits (self t)) 10
        then wdt_disable (write_MCUSR (MCUSR (io (wdt_reset t)) AND BV WDRF) (wdt_reset t))
        else t)
   \<and> goToSleep_sleep wake t =
       write_SREG (SREG (io t)) (write_PRR (copyPRR (self t)) (sleep_disable (sleep_cpu wake (sei
         (if bit (powerBits (self t)) 9 then sleep_bod_disable (sleep_enable (cli t))
          else sleep_enable (cli t))))))
   \<and> io (write_ACSR v u) = (io u)\<lparr>ACSR := v\<rparr>
   \<and> bit (ACSR (io (write_ACSR (ACSR (io u) OR BV ACD) u))) ACD
   \<and> io (wdt_reset u) = io u
   \<and> io (write_MCUSR w u) = (io u)\<lparr>MCUSR := w\<rparr>
   \<and> io (wdt_disable u) = (io u)\<lparr>WDTCSR := 0\<rparr>
   \<and> io (sleep_bod_disable u) =
       (io u)\<lparr>MCUCR := (MCUCR (io u) OR (BV BODS OR BV BODSE)) AND NOT (BV BODSE)\<rparr>
   \<and> bit (MCUCR (io (sleep_bod_disable u))) BODS
   \<and> io (goToSleep_PRR (s\<lparr>self := (self s)\<lparr>powerBits := PM_AC_OFF\<rparr>\<rparr>))
       = (io s)\<lparr>PRR := BV PRTIM1\<rparr>
   \<and> bit (PRR (io (goToSleep_PRR (s\<lparr>self := (self s)\<lparr>powerBits := PM_AC_OFF\<rparr>\<rparr>)))) PRTIM1
   \<and> goToSleep wake (s\<lparr>self := (self s)\<lparr>powerBits := PM_AC_OFF\<rparr>\<rparr>) =
       goToSleep_afterWake
         (write_SREG
            (SREG (io (goToSleep_preSleep
               (goToSleep_PRR (s\<lparr>self := (self s)\<lparr>powerBits := PM_AC_OFF\<rparr>\<rparr>)))))
            (write_PRR (PRR (io s))
               (sleep_disable (sleep_cpu wake (sei (sleep_enable (cli
                  (goToSleep_preSleep
                     (goToSleep_PRR (s\<lparr>self := (self s)\<lparr>powerBits := PM_AC_OFF\<rparr>\<rparr>)))))))))) "
proof -
  let ?s = "s\<lparr>self := (self s)\<lparr>powerBits := PM_AC_OFF\<rparr>\<rparr>"
  have c: "PM_AC_OFF = 8" "PM_BOD_OFF = 9" "PM_WDT_OFF = 10" "PM_AC_OFF = PM_TIMER1_OFF"
    by (simp_all add: PM_AC_OFF_def PM_BOD_OFF_def PM_WDT_OFF_def PM_TIMER1_OFF_def PRTIM1_def)
  have p: "PRR (io (goToSleep_PRR ?s)) = BV PRTIM1"
    by (simp add: goToSleep_PRR_simps PM_AC_OFF_def BV_def PRTIM1_def)
  have n: "{W_ACSR, WDT_RESET, W_MCUSR, WDT_DISABLE, BOD_DISABLE}
        \<inter> set (goToSleep_ops wake ?s) = {}"
    unfolding goToSleep_ops_eq by (simp add: PM_AC_OFF_def)
  have i: "(W_ACSR \<in> set (goToSleep_ops wake s)) = bit (powerBits (self s)) 8"
    "(BOD_DISABLE \<in> set (goToSleep_ops wake s)) = bit (powerBits (self s)) 9"
    "(WDT_RESET \<in> set (goToSleep_ops wake s)) = bit (powerBits (self s)) 10"
    "(W_MCUSR \<in> set (goToSleep_ops wake s)) = bit (powerBits (self s)) 10"
    "(WDT_DISABLE \<in> set (goToSleep_ops wake s)) = bit (powerBits (self s)) 10"
    unfolding goToSleep_ops_eq by simp_all
  have acd: "bit (ACSR (io (write_ACSR (ACSR (io u) OR BV ACD) u))) ACD"
    by (simp add: prim_io BV_def ACD_def bit_simps)
  have bods: "bit (MCUCR (io (sleep_bod_disable u))) BODS"
    by (simp add: prim_io BV_def BODS_def BODSE_def bit_simps)
  have p': "io (goToSleep_PRR ?s) = (io s)\<lparr>PRR := BV PRTIM1\<rparr>"
    by (simp add: goToSleep_PRR_simps PM_AC_OFF_def BV_def PRTIM1_def)
  have pt: "bit (PRR (io (goToSleep_PRR ?s))) PRTIM1"
    unfolding p by (simp add: BV_def PRTIM1_def bit_simps)
  have f: "\<not> bit PM_AC_OFF 8" "\<not> bit PM_AC_OFF 9" "\<not> bit PM_AC_OFF 10"
    by (simp_all add: PM_AC_OFF_def)
  have ac: "goToSleep_AC (goToSleep_PRR ?s) = goToSleep_PRR ?s"
    unfolding goToSleep_AC_eq by (simp add: goToSleep_PRR_simps f)
  have wd: "goToSleep_WDT (goToSleep_PRR ?s) = goToSleep_PRR ?s"
    unfolding goToSleep_WDT_eq by (simp add: goToSleep_PRR_simps f)
  have bare: "goToSleep wake ?s =
       goToSleep_afterWake
         (write_SREG (SREG (io (goToSleep_preSleep (goToSleep_PRR ?s))))
            (write_PRR (PRR (io s))
               (sleep_disable (sleep_cpu wake (sei (sleep_enable (cli
                  (goToSleep_preSleep (goToSleep_PRR ?s)))))))))"
    unfolding goToSleep_unfold ac wd goToSleep_sleep_eq
    by (simp add: goToSleep_preSleep_simps goToSleep_PRR_simps f)
  from c p n i bit_as_mask [of "powerBits (self s)"] goToSleep_unfold [of wake s]
    stage_powerBits(1) [of s] stage_powerBits(2-4) [of t] goToSleep_PRR_simps(3) [of s]
    goToSleep_AC_eq [of t] goToSleep_WDT_eq [of t] goToSleep_sleep_eq [of wake t]
    prim_io(10) [of v u] acd prim_io(7) [of u] prim_io(11) [of w u] prim_io(8) [of u]
    prim_io(5) [of u] bods p' pt bare
  show ?thesis
    by (intro conjI)
qed

section \<open>goToSleep: the watchdog reset flag\<close>

text \<open>
  C4. Line 96, \<^verbatim>\<open>MCUSR &= (1 << WDRF)\<close>, keeps WDRF as it was and clears every other
  bit of MCUSR. With all four reset flags set and bit 10 of the mask set, MCUSR is
  \<^verbatim>\<open>0x08\<close> after the watchdog block and at the end of \<^verbatim>\<open>goToSleep\<close>: WDRF is still set;
  PORF, EXTRF and BORF are lost.
\<close>

theorem watchdog_flag_step_keeps_WDRF_only:
  "MCUSR (io (example_mcu 0x0400 None None)) = BV PORF OR BV EXTRF OR BV BORF OR BV WDRF
   \<and> bit (powerBits (self (example_mcu 0x0400 None None))) 10
   \<and> MCUSR (io (goToSleep_WDT (example_mcu 0x0400 None None))) = BV WDRF
   \<and> bit (MCUSR (io (goToSleep_WDT (example_mcu 0x0400 None None)))) WDRF
   \<and> \<not> bit (MCUSR (io (goToSleep_WDT (example_mcu 0x0400 None None)))) PORF
   \<and> \<not> bit (MCUSR (io (goToSleep_WDT (example_mcu 0x0400 None None)))) EXTRF
   \<and> \<not> bit (MCUSR (io (goToSleep_WDT (example_mcu 0x0400 None None)))) BORF
   \<and> MCUSR (io (goToSleep id (example_mcu 0x0400 None None))) = BV WDRF"
  by (simp add: example_mcu_def goToSleep_def goToSleep_until_afterWake_def
      goToSleep_PRR_def goToSleep_AC_def goToSleep_WDT_def goToSleep_preSleep_def
      goToSleep_sleep_def goToSleep_afterWake_def prim_defs
      PM_AC_OFF_def PM_BOD_OFF_def PM_WDT_OFF_def BV_def
      WDRF_def BORF_def EXTRF_def PORF_def SE_def BODS_def BODSE_def SREG_I_def ACD_def)

section \<open>A run of goToSleep\<close>

text \<open>
  Mask \<^verbatim>\<open>0x0603\<close> (watchdog, brown-out detector, USART, ADC), a hook before sleeping
  that sets every bit of PRR, an interrupt handler that sets PRR to \<^verbatim>\<open>0x10\<close>, and a
  hook after waking that changes nothing: PRR is \<^verbatim>\<open>0x42\<close> again at the end.
\<close>

lemma goToSleep_example_ops:
  "goToSleep_ops (\<lambda>r. r\<lparr>PRR := 0x10\<rparr>)
     (example_mcu 0x0603 (Some (\<lambda>r. r\<lparr>PRR := 0xFF\<rparr>)) (Some id))
   = [W_PRR, WDT_RESET, W_MCUSR, WDT_DISABLE, PRE_SLEEP, CLI, SLEEP_ENABLE, BOD_DISABLE,
      SEI, SLEEP_CPU, SLEEP_DISABLE, W_PRR, W_SREG, AFTER_WAKE]"
  by (simp add: goToSleep_ops_eq example_mcu_def)

lemma goToSleep_example_io:
  "io (goToSleep (\<lambda>r. r\<lparr>PRR := 0x10\<rparr>)
     (example_mcu 0x0603 (Some (\<lambda>r. r\<lparr>PRR := 0xFF\<rparr>)) (Some id)))
   = \<lparr>PRR = 0x42, ACSR = 0, MCUSR = 0x08, MCUCR = 0x40, SMCR = 0x04, SREG = 0x80,
      WDTCSR = 0\<rparr>"
  by (simp add: example_mcu_def goToSleep_def goToSleep_until_afterWake_def
      goToSleep_PRR_def goToSleep_AC_def goToSleep_WDT_def goToSleep_preSleep_def
      goToSleep_sleep_def goToSleep_afterWake_def prim_defs
      PM_AC_OFF_def PM_BOD_OFF_def PM_WDT_OFF_def BV_def
      WDRF_def SE_def BODS_def BODSE_def SREG_I_def ACD_def)

end
